theory Spec2Isabelle
  imports Main "HOL-Library.Word" "HOL-Library.Sublist"
begin

section \<open>The otbuiltin binding layer of ostree-go (pkg/otbuiltin/builtin.go)\<close>

text \<open>
  The package is a thin cgo layer over libostree and GLib. The Go functions are embedded
  as HOL functions; every foreign call is a field of an \<open>engine\<close> record over an
  abstract engine state \<open>'w\<close>, threaded explicitly in the order the source makes the
  calls. A Go \<open>error\<close> is an \<open>error option\<close> (\<open>None\<close> is \<open>nil\<close>). The
  allocation and release of C memory (\<open>C.CString\<close> with \<open>C.free\<close>, \<open>defer\<close>) has
  no counterpart in the model, apart from the deferred \<open>g_object_unref\<close>, which is a
  call of the engine.
\<close>

subsection \<open>Foreign data: pointers, gboolean, C strings, GError, GVariant\<close>

datatype pointer = Null | Addr nat

text \<open>\<open>gboolean\<close> is a C \<open>gint\<close>: a 32-bit integer; \<open>FALSE\<close> is 0 and \<open>TRUE\<close> is 1.\<close>

type_synonym gboolean = "32 word"

definition C_FALSE :: gboolean where
  "C_FALSE = 0"

definition C_TRUE :: gboolean where
  "C_TRUE = 1"

text \<open>
  \<open>C.CString\<close> copies the bytes of a Go string and appends a terminating NUL. The C
  side reads a \<open>char*\<close> up to its first NUL byte, so the C string denoted by the copy
  is the Go string cut at its first NUL. A C string is represented by its content; a
  \<open>char*\<close> that may be \<open>NULL\<close> is a \<open>string option\<close>.
\<close>

definition CString :: "string \<Rightarrow> string" where
  "CString s = takeWhile (\<lambda>c. c \<noteq> CHR 0x00) s"

text \<open>\<open>C.GoString\<close>: the bytes up to the terminator; the empty string for \<open>NULL\<close>.\<close>

definition GoString :: "string option \<Rightarrow> string" where
  "GoString p = (case p of None \<Rightarrow> [] | Some s \<Rightarrow> takeWhile (\<lambda>c. c \<noteq> CHR 0x00) s)"

record GError =
  domain :: string
  code :: int
  message :: string

text \<open>
  The values built for the pull options: a string, a string array (\<open>as\<close>) and a
  dictionary \<open>a{sv}\<close>, kept as the entries in the order the builder received them.
\<close>

datatype GVariant =
    VString string
  | VStrv "string list"
  | VDict "(string \<times> GVariant) list"

text \<open>
  \<open>g_utf8_validate\<close> of GLib, on the bytes of a C string: the well-formed byte
  sequences of UTF-8, without overlong forms, surrogates or code points above
  \<open>U+10FFFF\<close>.
\<close>

definition utf8_cont :: "nat \<Rightarrow> bool" where
  "utf8_cont b = (0x80 \<le> b \<and> b \<le> 0xBF)"

fun utf8_bytes_valid :: "nat list \<Rightarrow> bool" where
  "utf8_bytes_valid [] = True"
| "utf8_bytes_valid (b0 # bs) =
     (if b0 < 0x80 then utf8_bytes_valid bs
      else if 0xC2 \<le> b0 \<and> b0 \<le> 0xDF then
        (case bs of
           b1 # bs1 \<Rightarrow> utf8_cont b1 \<and> utf8_bytes_valid bs1
         | _ \<Rightarrow> False)
      else if 0xE0 \<le> b0 \<and> b0 \<le> 0xEF then
        (case bs of
           b1 # b2 # bs2 \<Rightarrow>
             (if b0 = 0xE0 then 0xA0 \<le> b1 \<and> b1 \<le> 0xBF
              else if b0 = 0xED then 0x80 \<le> b1 \<and> b1 \<le> 0x9F
              else utf8_cont b1)
             \<and> utf8_cont b2 \<and> utf8_bytes_valid bs2
         | _ \<Rightarrow> False)
      else if 0xF0 \<le> b0 \<and> b0 \<le> 0xF4 then
        (case bs of
           b1 # b2 # b3 # bs3 \<Rightarrow>
             (if b0 = 0xF0 then 0x90 \<le> b1 \<and> b1 \<le> 0xBF
              else if b0 = 0xF4 then 0x80 \<le> b1 \<and> b1 \<le> 0x8F
              else utf8_cont b1)
             \<and> utf8_cont b2 \<and> utf8_cont b3 \<and> utf8_bytes_valid bs3
         | _ \<Rightarrow> False)
      else False)"

definition g_utf8_validate :: "string \<Rightarrow> bool" where
  "g_utf8_validate s = utf8_bytes_valid (map of_char s)"

subsection \<open>Go errors and the helpers of pkg/glibobject\<close>

text \<open>
  \<open>errors.New\<close> and \<open>fmt.Errorf\<close> (used without \<open>%w\<close>) both build an error that
  holds nothing but its text; \<open>Error\<close> reads the text back.
\<close>

datatype error = errors_New (Error: string)

text \<open>
  Modelled from the spec: \<open>glib.GoBool\<close> belongs to pkg/glibobject, outside
  this package; the comment on \<open>isOk\<close> in builtin.go states what it computes (0 is false,
  everything else is true).
\<close>

definition GoBool :: "gboolean \<Rightarrow> bool" where
  "GoBool b = (b \<noteq> 0)"

text \<open>
  Modelled from the spec: \<open>glib.GBool\<close> belongs to pkg/glibobject, outside this
  package; it is the converse conversion, Go \<open>true\<close> to \<open>TRUE\<close> and \<open>false\<close> to
  \<open>FALSE\<close>.
\<close>

definition GBool :: "bool \<Rightarrow> gboolean" where
  "GBool b = (if b then C_TRUE else C_FALSE)"

text \<open>
  Modelled from the spec: \<open>glib.ConvertGError\<close> (with \<open>glib.ToGError\<close>) of
  pkg/glibobject lies outside this package. Section 4.4 of the spec says that the
  adapter "preserves the underlying message text verbatim": the conversion yields a Go
  error whose text is the message of the \<open>GError\<close>.
\<close>

definition ConvertGError :: "GError \<Rightarrow> error" where
  "ConvertGError e = errors_New (message e)"

text \<open>The verb \<open>%d\<close> of \<open>fmt\<close>: an integer in decimal, with a sign when negative.\<close>

function fmt_nat :: "nat \<Rightarrow> string" where
  "fmt_nat n =
     (if n < 10 then [''0123456789'' ! n]
      else fmt_nat (n div 10) @ [''0123456789'' ! (n mod 10)])"
  by pat_completeness auto
termination
  by (relation "measure (\<lambda>n. n)") auto

declare fmt_nat.simps [simp del]

definition fmt_d :: "int \<Rightarrow> string" where
  "fmt_d i = (if i < 0 then ''-'' @ fmt_nat (nat (- i)) else fmt_nat (nat i))"

subsection \<open>The foreign functions called by the package\<close>

text \<open>
  One field for each C function the source calls, with the arguments in the order of the
  C prototype; out-parameters (\<open>&cerr\<close>, \<open>&coutrev\<close>) are part of the result. A
  \<open>GError**\<close> argument that the source passes as \<open>nil\<close> still appears in the result
  of the field, and the caller drops it.
\<close>

record 'w engine =
  g_file_new_for_path :: "string \<Rightarrow> 'w \<Rightarrow> pointer \<times> 'w"
  g_object_unref :: "pointer \<Rightarrow> 'w \<Rightarrow> 'w"
  ostree_repo_new :: "pointer \<Rightarrow> 'w \<Rightarrow> pointer \<times> 'w"
  ostree_repo_open :: "pointer \<Rightarrow> pointer \<Rightarrow> 'w \<Rightarrow> (gboolean \<times> GError option) \<times> 'w"
  ostree_repo_resolve_rev ::
    "pointer \<Rightarrow> string \<Rightarrow> gboolean \<Rightarrow> 'w \<Rightarrow> (gboolean \<times> string option \<times> GError option) \<times> 'w"
  ostree_repo_pull_with_options ::
    "pointer \<Rightarrow> string \<Rightarrow> GVariant option \<Rightarrow> pointer \<Rightarrow> pointer \<Rightarrow> 'w
       \<Rightarrow> (gboolean \<times> GError option) \<times> 'w"
  ostree_repo_get_config :: "pointer \<Rightarrow> 'w \<Rightarrow> pointer \<times> 'w"
  g_key_file_get_boolean ::
    "pointer \<Rightarrow> string \<Rightarrow> string \<Rightarrow> 'w \<Rightarrow> (gboolean \<times> GError option) \<times> 'w"
  g_key_file_set_boolean :: "pointer \<Rightarrow> string \<Rightarrow> string \<Rightarrow> gboolean \<Rightarrow> 'w \<Rightarrow> 'w"
  ostree_repo_write_config :: "pointer \<Rightarrow> pointer \<Rightarrow> 'w \<Rightarrow> (gboolean \<times> GError option) \<times> 'w"

subsection \<open>Repo\<close>

record Repo =
  ptr :: pointer

text \<open>A \<open>*Repo\<close> is a \<open>Repo option\<close>: \<open>None\<close> is the nil receiver.\<close>

definition isInitialized :: "Repo option \<Rightarrow> bool" where
  "isInitialized r =
     (case r of None \<Rightarrow> False
      | Some r' \<Rightarrow> (if ptr r' = Null then False else True))"

definition native :: "Repo option \<Rightarrow> pointer" where
  "native r = (if \<not> isInitialized r then Null else ptr (the r))"

definition repoFromNative :: "pointer \<Rightarrow> Repo option" where
  "repoFromNative p = (if p = Null then None else Some \<lparr>ptr = p\<rparr>)"

definition gobool :: "gboolean \<Rightarrow> bool" where
  "gobool b = (b \<noteq> C_FALSE)"

definition isOk :: "gboolean \<Rightarrow> bool" where
  "isOk v = GoBool v"

subsection \<open>generateError\<close>

text \<open>
  \<open>runtime.Caller(1)\<close> is an input of the model: \<open>Some (file, line)\<close> when the runtime
  reports the call site (\<open>ok\<close>), \<open>None\<close> when it does not.
\<close>

type_synonym caller = "(string \<times> int) option"

definition generateError :: "caller \<Rightarrow> GError option \<Rightarrow> error option" where
  "generateError caller err =
     (case err of
        None \<Rightarrow> Some (errors_New ''nil GError'')
      | Some e \<Rightarrow>
          (let goErr = ConvertGError e in
           case caller of
             Some (file, line) \<Rightarrow>
               Some (errors_New (file @ '':'' @ fmt_d line @ '' - '' @ Error goErr))
           | None \<Rightarrow> Some goErr))"

subsection \<open>OpenRepo\<close>

definition OpenRepo :: "'w engine \<Rightarrow> caller \<Rightarrow> string \<Rightarrow> 'w \<Rightarrow> (Repo option \<times> error option) \<times> 'w" where
  "OpenRepo eng caller path w =
     (if path = [] then ((None, Some (errors_New ''empty path'')), w)
      else
        let cpath = CString path;
            (repoPath, w1) = g_file_new_for_path eng cpath w;
            (crepo, w2) = ostree_repo_new eng repoPath w1;
            repo = repoFromNative crepo;
            ((r0, cerr), w3) = ostree_repo_open eng crepo Null w2;
            r = GoBool r0;
            res = (if \<not> r then (None, generateError caller cerr) else (repo, None));
            w4 = g_object_unref eng repoPath w3
        in (res, w4))"

subsection \<open>ResolveRev\<close>

definition ResolveRev ::
  "'w engine \<Rightarrow> caller \<Rightarrow> Repo option \<Rightarrow> string \<Rightarrow> bool \<Rightarrow> 'w \<Rightarrow> (string \<times> error option) \<times> 'w" where
  "ResolveRev eng caller repo refspec allowNoent w =
     (let crefspec = CString refspec;
          ((r, coutrev, cerr), w1) =
             ostree_repo_resolve_rev eng (native repo) crefspec (GBool allowNoent) w
      in if \<not> gobool r then (([], generateError caller cerr), w1)
         else ((GoString coutrev, None), w1))"

subsection \<open>PullWithOptions\<close>

record PullOptions =
  OverrideRemoteName :: string
  Refs :: "string list"

text \<open>
  An \<open>AsyncProgress\<close> embeds a \<open>*glib.Object\<close>; the model keeps the pointer that its
  \<open>Ptr\<close> method yields. A \<open>*AsyncProgress\<close> is an \<open>AsyncProgress option\<close>.
\<close>

record AsyncProgress =
  Object_Ptr :: pointer

definition AsyncProgress_native :: "AsyncProgress option \<Rightarrow> pointer" where
  "AsyncProgress_native a = (case a of None \<Rightarrow> Null | Some a' \<Rightarrow> Object_Ptr a')"

text \<open>
  \<open>glib.GCancellable\<close> and its \<open>Ptr\<close> method are declared in pkg/glibobject; the
  argument of the model is the pointer that \<open>c.Ptr()\<close> yields, which
  \<open>cCancellable\<close> only casts.
\<close>

definition cCancellable :: "pointer \<Rightarrow> pointer" where
  "cCancellable c = c"

text \<open>
  A \<open>GVariant*\<close> is a \<open>GVariant option\<close>. The constructors of GLib test their text
  with \<open>g_utf8_validate\<close> and return \<open>NULL\<close> (\<open>None\<close>) for text that is not valid
  UTF-8; \<open>g_variant_new_strv\<close> builds each element with the constructor for strings.
  \<open>builtin.go\<close> hands the result on to the builder without a test. A builder that is
  given \<open>NULL\<close> as value has left what GLib defines: from there on the builder, and the
  bag that \<open>g_variant_builder_end\<close> makes of it, are \<open>None\<close>, no well-formed value.
  Otherwise the \<open>GVariantBuilder\<close> of type \<open>a{sv}\<close> is the list of the entries
  added so far, in order.
\<close>

type_synonym GVariantBuilder = "(string \<times> GVariant) list option"

text \<open>
  Modelled from the spec: \<open>_g_variant_type\<close> and \<open>_g_variant_builder_add_twoargs\<close>
  are declared in the C header builtin.go.h, outside builtin.go. The first casts a
  type string; the second is \<open>g_variant_builder_add\<close> with two arguments, which for the
  format \<open>{sv}\<close> adds one entry, a key with its value, to the option bag of section 6
  of the spec.
\<close>

definition g_variant_type :: "string \<Rightarrow> string" where
  "g_variant_type type_string = type_string"

definition g_variant_builder_new :: "string \<Rightarrow> GVariantBuilder" where
  "g_variant_builder_new ty = Some []"

definition g_variant_builder_add_twoargs ::
  "GVariantBuilder \<Rightarrow> string \<Rightarrow> string \<Rightarrow> GVariant option \<Rightarrow> GVariantBuilder" where
  "g_variant_builder_add_twoargs builder format_string k v =
     (case builder of
        None \<Rightarrow> None
      | Some entries \<Rightarrow> (case v of None \<Rightarrow> None | Some x \<Rightarrow> Some (entries @ [(k, x)])))"

definition g_variant_builder_end :: "GVariantBuilder \<Rightarrow> GVariant option" where
  "g_variant_builder_end builder =
     (case builder of None \<Rightarrow> None | Some entries \<Rightarrow> Some (VDict entries))"

definition g_variant_new_take_string :: "string \<Rightarrow> GVariant option" where
  "g_variant_new_take_string cstr = (if g_utf8_validate cstr then Some (VString cstr) else None)"

definition g_variant_new_strv :: "string list \<Rightarrow> GVariant option" where
  "g_variant_new_strv crefs =
     (if list_all g_utf8_validate crefs then Some (VStrv crefs) else None)"

text \<open>
  Lines 106 to 134 of \<open>PullWithOptions\<close>: the option bag handed to the engine. The loop
  over \<open>options.Refs\<close> that fills \<open>crefs\<close> is \<open>map CString\<close>.
\<close>

definition pull_coptions :: "PullOptions \<Rightarrow> GVariant option" where
  "pull_coptions options =
     (let builder0 = g_variant_builder_new (g_variant_type (CString ''a{sv}''));
          builder1 =
            (if OverrideRemoteName options \<noteq> [] then
               (let cstr = CString (OverrideRemoteName options);
                    v = g_variant_new_take_string cstr;
                    k = CString ''override-remote-name''
                in g_variant_builder_add_twoargs builder0 (CString ''{sv}'') k v)
             else builder0);
          builder2 =
            (if length (Refs options) \<noteq> 0 then
               (let crefs = map CString (Refs options);
                    v = g_variant_new_strv crefs;
                    k = CString ''refs''
                in g_variant_builder_add_twoargs builder1 (CString ''{sv}'') k v)
             else builder1)
      in g_variant_builder_end builder2)"

definition PullWithOptions ::
  "'w engine \<Rightarrow> caller \<Rightarrow> Repo option \<Rightarrow> string \<Rightarrow> PullOptions \<Rightarrow> AsyncProgress option \<Rightarrow> pointer
     \<Rightarrow> 'w \<Rightarrow> error option \<times> 'w" where
  "PullWithOptions eng caller repo remoteName options progress cancellable w =
     (let cremoteName = CString remoteName;
          coptions = pull_coptions options;
          ((r, cerr), w1) =
             ostree_repo_pull_with_options eng (native repo) cremoteName coptions
               (AsyncProgress_native progress) (cCancellable cancellable) w
      in if \<not> gobool r then (generateError caller cerr, w1) else (None, w1))"

text \<open>
  Reading an entry of a dictionary variant (\<open>g_variant_lookup_value\<close>); there is
  nothing to read in something that is not a well-formed dictionary.
\<close>

definition lookup_value :: "GVariant option \<Rightarrow> string \<Rightarrow> GVariant option" where
  "lookup_value d k = (case d of Some (VDict es) \<Rightarrow> map_of es k | _ \<Rightarrow> None)"

subsection \<open>enableTombstoneCommits\<close>

definition enableTombstoneCommits :: "'w engine \<Rightarrow> caller \<Rightarrow> Repo option \<Rightarrow> 'w \<Rightarrow> error option \<times> 'w" where
  "enableTombstoneCommits eng caller r w =
     (if \<not> isInitialized r then (Some (errors_New ''repo not initialized''), w)
      else
        let (config, w1) = ostree_repo_get_config eng (native r) w;
            groupC = CString ''core'';
            keyC = CString ''tombstone-commits'';
            ((valueC, _), w2) = g_key_file_get_boolean eng config groupC keyC w1;
            tombstoneCommits = GoBool valueC
        in if \<not> tombstoneCommits then
             (let w3 = g_key_file_set_boolean eng config groupC keyC C_TRUE w2;
                  ((ok, cerr), w4) = ostree_repo_write_config eng (native r) config w3
              in if \<not> GoBool ok then (generateError caller cerr, w4) else (None, w4))
           else (None, w2))"

subsection \<open>A fake engine with probes\<close>

text \<open>
  An engine for running the package: one repository with an in-memory key file of
  booleans, the copy of it on disk, a table of refs and a fixed outcome for pulls. It
  follows the documented behaviour of the C functions: \<open>g_key_file_get_boolean\<close>
  returns \<open>FALSE\<close> and reports an error for a key that is not there;
  \<open>ostree_repo_resolve_rev\<close> returns \<open>TRUE\<close> with a \<open>NULL\<close> revision for an unknown
  refspec when \<open>allow_noent\<close> is set, and fails otherwise; a \<open>NULL\<close> repository
  makes the libostree functions return \<open>FALSE\<close> with no error set; a pull that is
  given a triggered \<open>GCancellable\<close> fails with the error GIO sets for it
  (\<open>G_IO_ERROR_CANCELLED\<close>, code 19), and any other pull has the outcome fixed in the
  state. It records every call, and counts the calls of \<open>ostree_repo_write_config\<close>.
\<close>

datatype fake_call =
    Call_g_file_new_for_path string
  | Call_g_object_unref pointer
  | Call_ostree_repo_new pointer
  | Call_ostree_repo_open pointer pointer
  | Call_ostree_repo_resolve_rev pointer string gboolean
  | Call_ostree_repo_pull_with_options pointer string "GVariant option" pointer pointer
  | Call_ostree_repo_get_config pointer
  | Call_g_key_file_get_boolean pointer string string
  | Call_g_key_file_set_boolean pointer string string gboolean
  | Call_ostree_repo_write_config pointer pointer

record fake_world =
  keyfile :: "(string \<times> string) \<rightharpoonup> bool"
  disk :: "(string \<times> string) \<rightharpoonup> bool"
  disk_ok :: bool
  write_count :: nat
  revs :: "string \<rightharpoonup> string"
  pull_result :: "gboolean \<times> GError option"
  triggered :: "pointer list"
  repo_valid :: bool
  calls :: "fake_call list"

definition record_call :: "fake_call \<Rightarrow> fake_world \<Rightarrow> fake_world" where
  "record_call c s = s\<lparr>calls := calls s @ [c]\<rparr>"

definition key_not_found :: GError where
  "key_not_found = \<lparr>domain = ''g-key-file-error-quark'', code = 3, message = ''Key file does not have key''\<rparr>"

definition ref_not_found :: "string \<Rightarrow> GError" where
  "ref_not_found refspec =
     \<lparr>domain = ''g-io-error-quark'', code = 1, message = ''Refspec '' @ refspec @ '' not found''\<rparr>"

definition write_failed :: GError where
  "write_failed = \<lparr>domain = ''g-io-error-quark'', code = 0, message = ''Error writing config''\<rparr>"

definition pull_cancelled :: GError where
  "pull_cancelled = \<lparr>domain = ''g-io-error-quark'', code = 19, message = ''Operation was cancelled''\<rparr>"

definition open_failed :: GError where
  "open_failed = \<lparr>domain = ''g-io-error-quark'', code = 1, message = ''opening repo: No such file or directory''\<rparr>"

definition fake_engine :: "fake_world engine" where
  "fake_engine =
     \<lparr>g_file_new_for_path = (\<lambda>path s. (Addr 1, record_call (Call_g_file_new_for_path path) s)),
      g_object_unref = (\<lambda>p s. record_call (Call_g_object_unref p) s),
      ostree_repo_new = (\<lambda>f s. (Addr 2, record_call (Call_ostree_repo_new f) s)),
      ostree_repo_open = (\<lambda>p c s.
         (if p \<noteq> Null \<and> repo_valid s then (C_TRUE, None) else (C_FALSE, Some open_failed),
          record_call (Call_ostree_repo_open p c) s)),
      ostree_repo_resolve_rev = (\<lambda>p refspec allow_noent s.
         (if p = Null then (C_FALSE, None, None)
          else case revs s refspec of
                 Some checksum \<Rightarrow> (C_TRUE, Some checksum, None)
               | None \<Rightarrow>
                   if allow_noent \<noteq> C_FALSE then (C_TRUE, None, None)
                   else (C_FALSE, None, Some (ref_not_found refspec)),
          record_call (Call_ostree_repo_resolve_rev p refspec allow_noent) s)),
      ostree_repo_pull_with_options = (\<lambda>p remote opts progress cancellable s.
         (if p = Null then (C_FALSE, None)
          else if cancellable \<noteq> Null \<and> cancellable \<in> set (triggered s)
            then (C_FALSE, Some pull_cancelled)
          else pull_result s,
          record_call (Call_ostree_repo_pull_with_options p remote opts progress cancellable) s)),
      ostree_repo_get_config = (\<lambda>p s. (Addr 3, record_call (Call_ostree_repo_get_config p) s)),
      g_key_file_get_boolean = (\<lambda>cfg g k s.
         (case keyfile s (g, k) of
            Some b \<Rightarrow> (GBool b, None)
          | None \<Rightarrow> (C_FALSE, Some key_not_found),
          record_call (Call_g_key_file_get_boolean cfg g k) s)),
      g_key_file_set_boolean = (\<lambda>cfg g k v s.
         record_call (Call_g_key_file_set_boolean cfg g k v)
           (s\<lparr>keyfile := (keyfile s)((g, k) \<mapsto> (v \<noteq> C_FALSE))\<rparr>)),
      ostree_repo_write_config = (\<lambda>p cfg s.
         (if disk_ok s then (C_TRUE, None) else (C_FALSE, Some write_failed),
          record_call (Call_ostree_repo_write_config p cfg)
            (s\<lparr>disk := (if disk_ok s then keyfile s else disk s),
               write_count := Suc (write_count s)\<rparr>)))\<rparr>"

text \<open>A fresh repository: no key set, nothing resolvable, a working disk, pulls succeed.\<close>

definition fake_init :: fake_world where
  "fake_init =
     \<lparr>keyfile = Map.empty, disk = Map.empty, disk_ok = True, write_count = 0,
      revs = Map.empty, pull_result = (C_TRUE, None), triggered = [], repo_valid = True,
      calls = []\<rparr>"

text \<open>
  A transfer failure of the engine (code 0, \<open>G_IO_ERROR_FAILED\<close>) whose message has
  the wording of GIO's message for a cancellation.
\<close>

definition pull_failed :: GError where
  "pull_failed = \<lparr>domain = ''g-io-error-quark'', code = 0, message = ''Operation was cancelled''\<rparr>"

section \<open>Properties\<close>

subsection \<open>Auxiliary facts\<close>

lemmas conv_defs = C_TRUE_def C_FALSE_def GBool_def GoBool_def gobool_def

lemmas fake_defs = fake_engine_def record_call_def

lemma CString_literals:
  "CString ''core'' = ''core''"
  "CString ''tombstone-commits'' = ''tombstone-commits''"
  "CString ''override-remote-name'' = ''override-remote-name''"
  "CString ''refs'' = ''refs''"
  by (simp_all add: CString_def)

lemma CString_no_NUL: "(CString s = s) = (CHR 0x00 \<notin> set s)"
  by (auto simp: CString_def takeWhile_eq_all_conv)

lemma fmt_d_examples: "fmt_d 64 = ''64''" "fmt_d 139 = ''139''" "fmt_d 167 = ''167''"
  by code_simp+

lemma generateError_not_nil: "generateError caller cerr \<noteq> None"
  by (simp add: generateError_def Let_def split: option.split prod.split)

lemma g_utf8_validate_Nil: "g_utf8_validate []"
  by (simp add: g_utf8_validate_def)

lemma g_utf8_validate_examples:
  "g_utf8_validate ''a''" "g_utf8_validate ''b''" "g_utf8_validate ''upstream''"
  "\<not> g_utf8_validate [CHR 0xFF]"
  by (simp_all add: g_utf8_validate_def)

lemma pull_coptions_unfold:
  "pull_coptions options =
     (if g_utf8_validate (CString (OverrideRemoteName options))
         \<and> list_all g_utf8_validate (map CString (Refs options))
      then Some (VDict ((if OverrideRemoteName options = [] then []
                         else [(''override-remote-name'', VString (CString (OverrideRemoteName options)))])
                      @ (if Refs options = [] then []
                         else [(''refs'', VStrv (map CString (Refs options)))])))
      else None)"
proof (cases "OverrideRemoteName options = []")
  case True
  then show ?thesis
    by (cases "Refs options = []")
       (simp_all add: pull_coptions_def Let_def g_variant_builder_new_def g_variant_builder_end_def
          g_variant_builder_add_twoargs_def g_variant_new_strv_def CString_literals
          g_utf8_validate_Nil CString_def)
next
  case False
  then show ?thesis
    by (cases "Refs options = []")
       (simp_all add: pull_coptions_def Let_def g_variant_builder_new_def g_variant_builder_end_def
          g_variant_builder_add_twoargs_def g_variant_new_take_string_def g_variant_new_strv_def
          CString_literals)
qed

lemma pull_coptions_default:
  "pull_coptions \<lparr>OverrideRemoteName = [], Refs = []\<rparr> = Some (VDict [])"
  by (simp add: pull_coptions_unfold g_utf8_validate_Nil CString_def)

lemma PullWithOptions_unfold:
  "PullWithOptions eng caller repo remoteName options progress cancellable w =
     (case ostree_repo_pull_with_options eng (native repo) (CString remoteName) (pull_coptions options)
             (AsyncProgress_native progress) (cCancellable cancellable) w of
        ((r, cerr), w1) \<Rightarrow> (if r = C_FALSE then generateError caller cerr else None, w1))"
  by (simp add: PullWithOptions_def Let_def gobool_def split: prod.split)

text \<open>
  What \<open>enableTombstoneCommits\<close> does with any engine: nothing on an unopened handle;
  only the two reads when the engine reports the key as true; the reads, the update and
  the write when it reports false.
\<close>

lemma enableTombstoneCommits_uninitialized:
  "\<not> isInitialized r \<Longrightarrow>
   enableTombstoneCommits eng caller r w = (Some (errors_New ''repo not initialized''), w)"
  by (simp add: enableTombstoneCommits_def)

lemma enableTombstoneCommits_reads_true:
  assumes "isInitialized r"
      and "ostree_repo_get_config eng (native r) w = (config, w1)"
      and "g_key_file_get_boolean eng config ''core'' ''tombstone-commits'' w1 = ((valueC, kerr), w2)"
      and "GoBool valueC"
  shows "enableTombstoneCommits eng caller r w = (None, w2)"
  using assms by (simp add: enableTombstoneCommits_def CString_literals)

lemma enableTombstoneCommits_reads_false:
  assumes "isInitialized r"
      and "ostree_repo_get_config eng (native r) w = (config, w1)"
      and "g_key_file_get_boolean eng config ''core'' ''tombstone-commits'' w1 = ((valueC, kerr), w2)"
      and "\<not> GoBool valueC"
      and "ostree_repo_write_config eng (native r) config
             (g_key_file_set_boolean eng config ''core'' ''tombstone-commits'' C_TRUE w2) = ((ok, cerr), w4)"
  shows "enableTombstoneCommits eng caller r w =
           (if GoBool ok then None else generateError caller cerr, w4)"
  using assms by (simp add: enableTombstoneCommits_def CString_literals)

subsection \<open>Unopened handles\<close>

text \<open>
  Claim C1. The claim asks that on an unopened handle \<open>ResolveRev\<close>,
  \<open>enableTombstoneCommits\<close> and \<open>PullWithOptions\<close> all return the error
  "repo not initialized" and call nothing. Only \<open>enableTombstoneCommits\<close> tests
  \<open>isInitialized\<close>. On the nil handle \<open>ResolveRev\<close> and \<open>PullWithOptions\<close> go on
  to call the engine with a \<open>NULL\<close> repository and return what the engine's answer
  turns into: with the fake engine, one recorded engine call each and the error
  "nil GError", while \<open>enableTombstoneCommits\<close> returns "repo not initialized" and leaves
  the engine alone.
\<close>

theorem unopened_handle_reaches_engine:
  "ResolveRev fake_engine None None ''main'' False fake_init =
     (([], Some (errors_New ''nil GError'')),
      fake_init\<lparr>calls := [Call_ostree_repo_resolve_rev Null ''main'' C_FALSE]\<rparr>)
   \<and> PullWithOptions fake_engine None None ''origin'' \<lparr>OverrideRemoteName = [], Refs = []\<rparr> None Null
        fake_init =
     (Some (errors_New ''nil GError''),
      fake_init\<lparr>calls := [Call_ostree_repo_pull_with_options Null ''origin'' (Some (VDict [])) Null Null]\<rparr>)
   \<and> enableTombstoneCommits fake_engine None None fake_init =
     (Some (errors_New ''repo not initialized''), fake_init)"
  by (simp add: ResolveRev_def PullWithOptions_unfold pull_coptions_default enableTombstoneCommits_def
       fake_defs fake_init_def conv_defs CString_def generateError_def isInitialized_def native_def
       AsyncProgress_native_def cCancellable_def)

subsection \<open>The option bag of a pull\<close>

text \<open>
  Claim C2, as stated, fails at two names. At a name holding a NUL byte the entry
  \<open>override-remote-name\<close> is there, but its value is not that name: the C string made
  from \<open>"a\0b"\<close> is \<open>"a"\<close>. At the name \<open>"\xff"\<close>, which is not UTF-8, GLib builds no
  string variant, and no entry with that name as value exists.
\<close>

theorem pull_coptions_value_counterexample:
  "lookup_value (pull_coptions \<lparr>OverrideRemoteName = [CHR ''a'', CHR 0x00, CHR ''b''], Refs = []\<rparr>)
      ''override-remote-name'' = Some (VString ''a'')
   \<and> lookup_value (pull_coptions \<lparr>OverrideRemoteName = [CHR ''a'', CHR 0x00, CHR ''b''], Refs = []\<rparr>)
      ''override-remote-name'' \<noteq> Some (VString [CHR ''a'', CHR 0x00, CHR ''b''])
   \<and> lookup_value (pull_coptions \<lparr>OverrideRemoteName = [CHR 0xFF], Refs = []\<rparr>)
      ''override-remote-name'' \<noteq> Some (VString [CHR 0xFF])"
  by (simp add: pull_coptions_unfold lookup_value_def CString_def g_utf8_validate_examples)

text \<open>
  Claim C2, amended. For options whose name and refs, each cut at its first NUL byte, are
  valid UTF-8: the bag that \<open>PullWithOptions\<close> hands to
  \<open>ostree_repo_pull_with_options\<close> is \<open>pull_coptions options\<close>, a dictionary that
  holds an entry \<open>override-remote-name\<close> exactly when \<open>OverrideRemoteName\<close> is not
  empty, and an entry \<open>refs\<close> exactly when \<open>Refs\<close> is not empty, and nothing else.
  The value of the first is the C string made from the name, that of the second the C
  strings made from the refs, as many and in the same order; a C string made from a Go
  string is the string up to its first NUL byte, hence the string itself exactly when it
  holds no NUL byte. The refs \<open>["a", "b"]\<close> with an empty name give the single entry
  \<open>refs\<close> with \<open>["a", "b"]\<close>, and the default options give the empty bag.
\<close>

theorem PullWithOptions_option_bag:
  assumes "g_utf8_validate (CString (OverrideRemoteName options))"
      and "list_all g_utf8_validate (map CString (Refs options))"
  shows
  "PullWithOptions eng caller repo remoteName options progress cancellable w =
     (case ostree_repo_pull_with_options eng (native repo) (CString remoteName) (pull_coptions options)
             (AsyncProgress_native progress) (cCancellable cancellable) w of
        ((r, cerr), w1) \<Rightarrow> (if r = C_FALSE then generateError caller cerr else None, w1))
   \<and> pull_coptions options =
       Some (VDict ((if OverrideRemoteName options = [] then []
                     else [(''override-remote-name'', VString (CString (OverrideRemoteName options)))])
                  @ (if Refs options = [] then []
                     else [(''refs'', VStrv (map CString (Refs options)))])))
   \<and> lookup_value (pull_coptions options) ''override-remote-name'' =
       (if OverrideRemoteName options = [] then None
        else Some (VString (CString (OverrideRemoteName options))))
   \<and> lookup_value (pull_coptions options) ''refs'' =
       (if Refs options = [] then None else Some (VStrv (map CString (Refs options))))
   \<and> CString s = takeWhile (\<lambda>c. c \<noteq> CHR 0x00) s
   \<and> (CString s = s) = (CHR 0x00 \<notin> set s)
   \<and> pull_coptions \<lparr>OverrideRemoteName = [], Refs = [''a'', ''b'']\<rparr> =
       Some (VDict [(''refs'', VStrv [''a'', ''b''])])
   \<and> pull_coptions \<lparr>OverrideRemoteName = [], Refs = []\<rparr> = Some (VDict [])"
proof -
  have bag: "pull_coptions options =
       Some (VDict ((if OverrideRemoteName options = [] then []
                     else [(''override-remote-name'', VString (CString (OverrideRemoteName options)))])
                  @ (if Refs options = [] then []
                     else [(''refs'', VStrv (map CString (Refs options)))])))"
    using assms by (simp add: pull_coptions_unfold)
  have override: "lookup_value (pull_coptions options) ''override-remote-name'' =
       (if OverrideRemoteName options = [] then None
        else Some (VString (CString (OverrideRemoteName options))))"
    by (simp add: bag lookup_value_def)
  have refs: "lookup_value (pull_coptions options) ''refs'' =
       (if Refs options = [] then None else Some (VStrv (map CString (Refs options))))"
    by (simp add: bag lookup_value_def)
  have ab: "pull_coptions \<lparr>OverrideRemoteName = [], Refs = [''a'', ''b'']\<rparr> =
       Some (VDict [(''refs'', VStrv [''a'', ''b''])])"
    by (simp add: pull_coptions_unfold CString_def g_utf8_validate_Nil g_utf8_validate_examples)
  show ?thesis
    by (intro conjI, rule PullWithOptions_unfold, rule bag, rule override,
        rule refs, rule CString_def, rule CString_no_NUL, rule ab, rule pull_coptions_default)
qed

text \<open>
  A name and two refs of plain ASCII, pulled through the open handle \<open>Addr 2\<close>: the
  fake engine records the bag with both entries.
\<close>

theorem PullWithOptions_option_bag_witness:
  "g_utf8_validate (CString (OverrideRemoteName \<lparr>OverrideRemoteName = ''upstream'', Refs = [''a'', ''b'']\<rparr>))
   \<and> list_all g_utf8_validate (map CString (Refs \<lparr>OverrideRemoteName = ''upstream'', Refs = [''a'', ''b'']\<rparr>))
   \<and> pull_coptions \<lparr>OverrideRemoteName = ''upstream'', Refs = [''a'', ''b'']\<rparr> =
       Some (VDict [(''override-remote-name'', VString ''upstream''), (''refs'', VStrv [''a'', ''b''])])
   \<and> PullWithOptions fake_engine None (Some \<lparr>ptr = Addr 2\<rparr>) ''origin''
        \<lparr>OverrideRemoteName = ''upstream'', Refs = [''a'', ''b'']\<rparr> None Null fake_init =
       (None, fake_init\<lparr>calls := [Call_ostree_repo_pull_with_options (Addr 2) ''origin''
          (Some (VDict [(''override-remote-name'', VString ''upstream''), (''refs'', VStrv [''a'', ''b''])]))
          Null Null]\<rparr>)"
proof -
  let ?options = "\<lparr>OverrideRemoteName = ''upstream'', Refs = [''a'', ''b'']\<rparr>"
  have name_ok: "g_utf8_validate (CString (OverrideRemoteName ?options))"
    by (simp add: CString_def g_utf8_validate_examples)
  have refs_ok: "list_all g_utf8_validate (map CString (Refs ?options))"
    by (simp add: CString_def g_utf8_validate_examples)
  show ?thesis
    using name_ok refs_ok
      PullWithOptions_option_bag [OF name_ok refs_ok, of fake_engine None "Some \<lparr>ptr = Addr 2\<rparr>"
        "''origin''" None Null fake_init]
    by (simp add: CString_def fake_defs fake_init_def conv_defs native_def isInitialized_def
          AsyncProgress_native_def cCancellable_def)
qed

subsection \<open>Tombstone commits\<close>

text \<open>
  Claim C3. On the fake engine, for every open handle and every state of the repository
  (any key file, working disk or not): after a first call of
  \<open>enableTombstoneCommits\<close>, a second call leaves the key file and its copy on disk as
  the first call left them, performs no write (the write count stays, and the only calls
  it makes are the two reads) and returns nil; and the first call writes once unless the
  key was already true, in which case it does not write.
\<close>

theorem enableTombstoneCommits_idempotent:
  assumes "isInitialized r"
  shows "(let (e1, s1) = enableTombstoneCommits fake_engine caller r s;
              (e2, s2) = enableTombstoneCommits fake_engine caller r s1
          in keyfile s2 = keyfile s1 \<and> disk s2 = disk s1 \<and> write_count s2 = write_count s1
             \<and> e2 = None
             \<and> calls s2 = calls s1 @ [Call_ostree_repo_get_config (native r),
                    Call_g_key_file_get_boolean (Addr 3) ''core'' ''tombstone-commits'']
             \<and> write_count s1 = write_count s +
                  (if keyfile s (''core'', ''tombstone-commits'') = Some True then 0 else 1))"
  using assms
  by (simp add: enableTombstoneCommits_def fake_defs conv_defs CString_literals Let_def
        split: option.split prod.split)

text \<open>The open handle \<open>Addr 2\<close> on a fresh repository: one write in all after two calls.\<close>

theorem enableTombstoneCommits_idempotent_witness:
  "isInitialized (Some \<lparr>ptr = Addr 2\<rparr>)
   \<and> write_count (snd (enableTombstoneCommits fake_engine None (Some \<lparr>ptr = Addr 2\<rparr>) fake_init)) = 1
   \<and> write_count (snd (enableTombstoneCommits fake_engine None (Some \<lparr>ptr = Addr 2\<rparr>)
        (snd (enableTombstoneCommits fake_engine None (Some \<lparr>ptr = Addr 2\<rparr>) fake_init)))) = 1
   \<and> fst (enableTombstoneCommits fake_engine None (Some \<lparr>ptr = Addr 2\<rparr>)
        (snd (enableTombstoneCommits fake_engine None (Some \<lparr>ptr = Addr 2\<rparr>) fake_init))) = None"
proof -
  have open_handle: "isInitialized (Some \<lparr>ptr = Addr 2\<rparr>)"
    by (simp add: isInitialized_def)
  show ?thesis
    using open_handle enableTombstoneCommits_idempotent [OF open_handle, of None fake_init]
    by (simp add: Let_def split_beta fake_init_def)
qed

text \<open>
  Claim C9. On the fake engine, for every open handle and every state in which the key
  \<open>core.tombstone-commits\<close> is absent from the key file: \<open>enableTombstoneCommits\<close>
  reads \<open>FALSE\<close> (the error that tells absence from falsity goes to a nil
  \<open>GError**\<close>), sets the key to true and calls \<open>ostree_repo_write_config\<close> once;
  it returns nil when the write succeeds and the adapted error when it fails.
\<close>

theorem enableTombstoneCommits_absent_key:
  assumes "isInitialized r" and "keyfile s (''core'', ''tombstone-commits'') = None"
  shows "(let (e, s') = enableTombstoneCommits fake_engine caller r s
          in keyfile s' = (keyfile s)((''core'', ''tombstone-commits'') \<mapsto> True)
             \<and> write_count s' = Suc (write_count s)
             \<and> calls s' = calls s @
                  [Call_ostree_repo_get_config (native r),
                   Call_g_key_file_get_boolean (Addr 3) ''core'' ''tombstone-commits'',
                   Call_g_key_file_set_boolean (Addr 3) ''core'' ''tombstone-commits'' C_TRUE,
                   Call_ostree_repo_write_config (native r) (Addr 3)]
             \<and> disk s' = (if disk_ok s then keyfile s' else disk s)
             \<and> e = (if disk_ok s then None else generateError caller (Some write_failed)))"
  using assms
  by (simp add: enableTombstoneCommits_def fake_defs conv_defs CString_literals Let_def
        split: option.split prod.split)

theorem enableTombstoneCommits_absent_key_witness:
  "isInitialized (Some \<lparr>ptr = Addr 2\<rparr>)
   \<and> keyfile fake_init (''core'', ''tombstone-commits'') = None
   \<and> keyfile (snd (enableTombstoneCommits fake_engine None (Some \<lparr>ptr = Addr 2\<rparr>) fake_init))
        (''core'', ''tombstone-commits'') = Some True
   \<and> write_count (snd (enableTombstoneCommits fake_engine None (Some \<lparr>ptr = Addr 2\<rparr>) fake_init)) = 1
   \<and> fst (enableTombstoneCommits fake_engine None (Some \<lparr>ptr = Addr 2\<rparr>) fake_init) = None"
proof -
  have open_handle: "isInitialized (Some \<lparr>ptr = Addr 2\<rparr>)"
    by (simp add: isInitialized_def)
  have absent: "keyfile fake_init (''core'', ''tombstone-commits'') = None"
    by (simp add: fake_init_def)
  show ?thesis
    using open_handle absent enableTombstoneCommits_absent_key [OF open_handle absent, of None]
    by (simp add: Let_def split_beta fake_init_def)
qed

subsection \<open>Resolving a revision\<close>

text \<open>
  Claim C4. A refspec does not resolve when the engine, asked with \<open>allow_noent\<close>
  set, returns true with a \<open>NULL\<close> revision, and, asked without it, returns false
  with an error set. For every engine, handle and such refspec, \<open>ResolveRev\<close> with
  \<open>allowNoent = true\<close> returns the empty string and nil, and with
  \<open>allowNoent = false\<close> returns the empty string and the adapted engine error (the
  spec's \<open>ResolveFailed\<close>), which is not nil.
\<close>

theorem ResolveRev_missing:
  assumes "ostree_repo_resolve_rev eng (native repo) (CString refspec) (GBool True) w =
             ((r1, None, cerr1), w1)"
      and "gobool r1"
      and "ostree_repo_resolve_rev eng (native repo) (CString refspec) (GBool False) w =
             ((r2, out2, Some e), w2)"
      and "\<not> gobool r2"
  shows "ResolveRev eng caller repo refspec True w = (([], None), w1)
       \<and> ResolveRev eng caller repo refspec False w = (([], generateError caller (Some e)), w2)
       \<and> generateError caller (Some e) \<noteq> None"
  using assms
  by (simp add: ResolveRev_def Let_def GoString_def generateError_not_nil)

text \<open>The open handle \<open>Addr 2\<close> and a refspec that the fresh fake repository lacks.\<close>

theorem ResolveRev_missing_witness:
  "ostree_repo_resolve_rev fake_engine (native (Some \<lparr>ptr = Addr 2\<rparr>)) (CString ''nobranch'')
       (GBool True) fake_init =
     ((C_TRUE, None, None), fake_init\<lparr>calls := [Call_ostree_repo_resolve_rev (Addr 2) ''nobranch'' C_TRUE]\<rparr>)
   \<and> gobool C_TRUE
   \<and> ostree_repo_resolve_rev fake_engine (native (Some \<lparr>ptr = Addr 2\<rparr>)) (CString ''nobranch'')
       (GBool False) fake_init =
     ((C_FALSE, None, Some (ref_not_found ''nobranch'')),
      fake_init\<lparr>calls := [Call_ostree_repo_resolve_rev (Addr 2) ''nobranch'' C_FALSE]\<rparr>)
   \<and> \<not> gobool C_FALSE
   \<and> ResolveRev fake_engine (Some (''builtin.go'', 64)) (Some \<lparr>ptr = Addr 2\<rparr>) ''nobranch'' True fake_init =
       (([], None), fake_init\<lparr>calls := [Call_ostree_repo_resolve_rev (Addr 2) ''nobranch'' C_TRUE]\<rparr>)
   \<and> ResolveRev fake_engine (Some (''builtin.go'', 64)) (Some \<lparr>ptr = Addr 2\<rparr>) ''nobranch'' False fake_init =
       (([], Some (errors_New ''builtin.go:64 - Refspec nobranch not found'')),
        fake_init\<lparr>calls := [Call_ostree_repo_resolve_rev (Addr 2) ''nobranch'' C_FALSE]\<rparr>)"
proof -
  let ?R = "Some \<lparr>ptr = Addr 2\<rparr>"
  have h1: "ostree_repo_resolve_rev fake_engine (native ?R) (CString ''nobranch'') (GBool True) fake_init =
     ((C_TRUE, None, None), fake_init\<lparr>calls := [Call_ostree_repo_resolve_rev (Addr 2) ''nobranch'' C_TRUE]\<rparr>)"
    by (simp add: fake_defs fake_init_def conv_defs native_def isInitialized_def CString_def)
  have h2: "gobool C_TRUE"
    by (simp add: conv_defs)
  have h3: "ostree_repo_resolve_rev fake_engine (native ?R) (CString ''nobranch'') (GBool False) fake_init =
     ((C_FALSE, None, Some (ref_not_found ''nobranch'')),
      fake_init\<lparr>calls := [Call_ostree_repo_resolve_rev (Addr 2) ''nobranch'' C_FALSE]\<rparr>)"
    by (simp add: fake_defs fake_init_def conv_defs native_def isInitialized_def CString_def)
  have h4: "\<not> gobool C_FALSE"
    by (simp add: conv_defs)
  show ?thesis
    using h1 h2 h3 h4 ResolveRev_missing [OF h1 h2 h3 h4, of "Some (''builtin.go'', 64)"]
    by (simp add: generateError_def ConvertGError_def ref_not_found_def fmt_d_examples)
qed

subsection \<open>Opening a repository\<close>

text \<open>
  Claim C5. For the empty path, \<open>OpenRepo\<close> returns no handle (\<open>nil\<close>) together with the
  error "empty path" (the spec's \<open>InvalidArgument\<close>), and the engine state it was given
  comes back untouched whatever the engine is: neither \<open>ostree_repo_open\<close> nor any other
  foreign function has run.
\<close>

theorem OpenRepo_empty_path:
  "OpenRepo eng caller [] w = ((None, Some (errors_New ''empty path'')), w)"
  by (simp add: OpenRepo_def)

subsection \<open>The error adapter\<close>

text \<open>
  Claim C6. Given a nil \<open>GError\<close>, \<open>generateError\<close> returns the non-nil error
  "nil GError" (the spec's \<open>NilError\<close>), whatever the runtime reports about the call
  site; the result is never nil.
\<close>

theorem generateError_nil:
  "generateError caller None = Some (errors_New ''nil GError'') \<and> generateError caller None \<noteq> None"
  by (simp add: generateError_def)

text \<open>
  Claim C7. For every \<open>GError\<close> that is not nil, the text of the error that
  \<open>generateError\<close> returns ends with the message of the \<open>GError\<close>, unchanged. When
  \<open>runtime.Caller\<close> reports the call site, the text is the file, a colon, the line in
  decimal and " - " before the message; when it does not, the text is the message alone.
\<close>

theorem generateError_message:
  "generateError caller (Some e) =
     Some (errors_New ((case caller of Some (file, line) \<Rightarrow> file @ '':'' @ fmt_d line @ '' - '' | None \<Rightarrow> [])
                        @ message e))
   \<and> generateError (Some (file, line)) (Some e) =
       Some (errors_New (file @ '':'' @ fmt_d line @ '' - '' @ message e))
   \<and> generateError None (Some e) = Some (errors_New (message e))
   \<and> suffix (message e) (Error (the (generateError caller (Some e))))"
  by (simp add: generateError_def ConvertGError_def Let_def suffix_def split: option.split prod.split)

subsection \<open>Cancelled and failed pulls\<close>

text \<open>
  Claim C8, as stated, at two pulls on the fake engine: one whose cancellation token
  \<open>Addr 9\<close> is triggered, which the engine reports with GIO's error for a cancellation,
  and one that fails in transfer with an error of the same wording. The two engine
  errors differ in their code, the field by which GLib marks a cancellation, and
  \<open>PullWithOptions\<close> returns the same error for both.
\<close>

theorem PullWithOptions_cancelled_counterexample:
  "fst (PullWithOptions fake_engine (Some (''builtin.go'', 139)) (Some \<lparr>ptr = Addr 2\<rparr>) ''origin''
          \<lparr>OverrideRemoteName = [], Refs = []\<rparr> None (Addr 9)
          (fake_init\<lparr>triggered := [Addr 9]\<rparr>))
     = Some (errors_New ''builtin.go:139 - Operation was cancelled'')
   \<and> fst (PullWithOptions fake_engine (Some (''builtin.go'', 139)) (Some \<lparr>ptr = Addr 2\<rparr>) ''origin''
          \<lparr>OverrideRemoteName = [], Refs = []\<rparr> None (Addr 9)
          (fake_init\<lparr>pull_result := (C_FALSE, Some pull_failed)\<rparr>))
     = Some (errors_New ''builtin.go:139 - Operation was cancelled'')
   \<and> code pull_cancelled \<noteq> code pull_failed"
  by (simp add: PullWithOptions_unfold fake_defs fake_init_def C_FALSE_def isInitialized_def native_def
       cCancellable_def generateError_def ConvertGError_def pull_cancelled_def pull_failed_def
       fmt_d_examples)

text \<open>
  Claim C8, amended. \<open>PullWithOptions\<close> has one failure path. Its result is nil when
  the engine's pull call returns true. When the call returns false, for a cancelled pull
  as for any other failure, the result is a non-nil error, hence distinct from successful
  completion: its text is the message of the engine's \<open>GError\<close>, after the file, a
  colon, the line and " - " when the call site is known ("nil GError" when the engine
  set no error). The domain and code of the \<open>GError\<close> do not reach the caller: the
  errors returned for two engine errors are equal exactly when the two messages are
  equal, so the error of a cancelled pull differs from that of a failed pull exactly when
  the engine words them differently.
\<close>

theorem PullWithOptions_failure_channel:
  "fst (PullWithOptions eng caller repo remoteName options progress cancellable w) =
     (case fst (ostree_repo_pull_with_options eng (native repo) (CString remoteName) (pull_coptions options)
             (AsyncProgress_native progress) (cCancellable cancellable) w) of
        (r, cerr) \<Rightarrow>
          if r = C_FALSE then
            (case cerr of
               None \<Rightarrow> Some (errors_New ''nil GError'')
             | Some e \<Rightarrow>
                 Some (errors_New
                   ((case caller of Some (file, line) \<Rightarrow> file @ '':'' @ fmt_d line @ '' - '' | None \<Rightarrow> [])
                    @ message e)))
          else None)
   \<and> generateError caller cerr' \<noteq> None
   \<and> (generateError caller (Some e1) = generateError caller (Some e2)) = (message e1 = message e2)
   \<and> generateError caller (Some (e\<lparr>domain := d, code := c\<rparr>)) = generateError caller (Some e)"
proof -
  have adapter: "generateError caller cerr =
      (case cerr of
         None \<Rightarrow> Some (errors_New ''nil GError'')
       | Some e \<Rightarrow>
           Some (errors_New
             ((case caller of Some (file, line) \<Rightarrow> file @ '':'' @ fmt_d line @ '' - '' | None \<Rightarrow> [])
              @ message e)))" for cerr
    by (simp add: generateError_def ConvertGError_def Let_def split: option.split prod.split)
  have channel: "fst (PullWithOptions eng caller repo remoteName options progress cancellable w) =
     (case fst (ostree_repo_pull_with_options eng (native repo) (CString remoteName) (pull_coptions options)
             (AsyncProgress_native progress) (cCancellable cancellable) w) of
        (r, cerr) \<Rightarrow>
          if r = C_FALSE then
            (case cerr of
               None \<Rightarrow> Some (errors_New ''nil GError'')
             | Some e \<Rightarrow>
                 Some (errors_New
                   ((case caller of Some (file, line) \<Rightarrow> file @ '':'' @ fmt_d line @ '' - '' | None \<Rightarrow> [])
                    @ message e)))
          else None)"
    by (simp add: PullWithOptions_unfold adapter split: prod.split)
  have by_text: "(generateError caller (Some e1) = generateError caller (Some e2)) = (message e1 = message e2)"
    by (simp add: adapter)
  have text_only: "generateError caller (Some (e\<lparr>domain := d, code := c\<rparr>)) = generateError caller (Some e)"
    by (simp add: adapter)
  show ?thesis
    by (intro conjI, rule channel, rule generateError_not_nil, rule by_text, rule text_only)
qed

subsection \<open>A nil progress sink\<close>

text \<open>
  Claim C10. \<open>native\<close> maps a nil \<open>*AsyncProgress\<close> to \<open>NULL\<close>, and
  \<open>PullWithOptions\<close> with a nil progress makes the same single engine call, and treats
  its answer in the same way, as with a progress sink: only the progress argument of the
  call differs, \<open>NULL\<close> instead of the pointer of the sink.
\<close>

theorem PullWithOptions_nil_progress:
  "AsyncProgress_native None = Null
   \<and> PullWithOptions eng caller repo remoteName options None cancellable w =
       (case ostree_repo_pull_with_options eng (native repo) (CString remoteName) (pull_coptions options)
               Null (cCancellable cancellable) w of
          ((r, cerr), w1) \<Rightarrow> (if r = C_FALSE then generateError caller cerr else None, w1))
   \<and> PullWithOptions eng caller repo remoteName options (Some a) cancellable w =
       (case ostree_repo_pull_with_options eng (native repo) (CString remoteName) (pull_coptions options)
               (Object_Ptr a) (cCancellable cancellable) w of
          ((r, cerr), w1) \<Rightarrow> (if r = C_FALSE then generateError caller cerr else None, w1))"
  by (simp add: PullWithOptions_unfold AsyncProgress_native_def)

end
